theory Spec2Isabelle
  imports Complex_Main "HOL-Library.Sublist"
begin

section \<open>Python values, errors and small string helpers\<close>

text \<open>
  The workflow state is a Python dict holding a pydantic model; context values and
  history-entry values are of type \<^verbatim>\<open>Any\<close>. They are modelled by a small universe of
  Python values. Floats are modelled by rationals: every float the handlers compare is
  parsed from a short decimal literal and only compared or added, so the model is exact
  up to the rounding of a decimal literal to the nearest double.
\<close>

datatype pyval =
    PyNone
  | PyBool bool
  | PyInt int
  | PyFloat rat
  | PyStr string
  | PyList "pyval list"

fun truthy :: "pyval \<Rightarrow> bool" where
  "truthy PyNone = False"
| "truthy (PyBool b) = b"
| "truthy (PyInt i) = (i \<noteq> 0)"
| "truthy (PyFloat r) = (r \<noteq> 0)"
| "truthy (PyStr s) = (s \<noteq> [])"
| "truthy (PyList xs) = (xs \<noteq> [])"

datatype error = TypeError | ValueError | KeyError | ValidationError

text \<open>\<^verbatim>\<open>sep.join(xs)\<close>\<close>

fun join :: "string \<Rightarrow> string list \<Rightarrow> string" where
  "join sep [] = []"
| "join sep [x] = x"
| "join sep (x # y # ys) = x @ sep @ join sep (y # ys)"

text \<open>\<^verbatim>\<open>p in s\<close> on strings: \<open>p\<close> occurs in \<open>s\<close> as a contiguous substring.\<close>

fun is_substr :: "string \<Rightarrow> string \<Rightarrow> bool" where
  "is_substr p [] = (p = [])"
| "is_substr p (c # cs) = (prefix p (c # cs) \<or> is_substr p cs)"

text \<open>
  \<^verbatim>\<open>s.replace(old, new)\<close> for a non-empty \<open>old\<close>: the occurrences of \<open>old\<close> are replaced
  from left to right, without overlap. The counter is the number of characters of a
  replaced occurrence still to be skipped.
\<close>

fun replace_from :: "string \<Rightarrow> string \<Rightarrow> nat \<Rightarrow> string \<Rightarrow> string" where
  "replace_from old new k [] = []"
| "replace_from old new k (c # cs) =
     (if 0 < k then replace_from old new (k - 1) cs
      else if prefix old (c # cs) then new @ replace_from old new (length old - 1) cs
      else c # replace_from old new 0 cs)"

definition str_replace :: "string \<Rightarrow> string \<Rightarrow> string \<Rightarrow> string" where
  "str_replace old new s = replace_from old new 0 s"

subsection \<open>The regular expressions of the handlers\<close>

text \<open>
  Every pattern the handlers search for has the shape
  \<^verbatim>\<open>literal \s* ([class]+) suffix\<close>: a literal, optional white space, a non-empty greedy
  run of characters of one class (the group), and a literal suffix (possibly empty).
  Backtracking cannot help such a pattern (a shorter white-space run is followed by
  white space, a shorter group by a character of the class), so a match at a position
  is the greedy one. \<^verbatim>\<open>re.search\<close> returns the leftmost match; the functions below
  return its group 1. Texts are taken to be ASCII, where \<^verbatim>\<open>\d\<close> is a decimal digit and
  \<^verbatim>\<open>\s\<close> one of the ten white-space characters.
\<close>

definition is_digit :: "char \<Rightarrow> bool" where
  "is_digit c = (c \<in> set ''0123456789'')"

definition is_space :: "char \<Rightarrow> bool" where
  "is_space c =
     (c \<in> set [CHR '' '', CHR 0x09, CHR 0x0A, CHR 0x0B, CHR 0x0C, CHR 0x0D,
                CHR 0x1C, CHR 0x1D, CHR 0x1E, CHR 0x1F])"

fun strip_prefix :: "string \<Rightarrow> string \<Rightarrow> string option" where
  "strip_prefix [] s = Some s"
| "strip_prefix (p # ps) [] = None"
| "strip_prefix (p # ps) (c # cs) = (if p = c then strip_prefix ps cs else None)"

definition match_here :: "string \<Rightarrow> bool \<Rightarrow> (char \<Rightarrow> bool) \<Rightarrow> string \<Rightarrow> string \<Rightarrow> string option" where
  "match_here lit skip_ws cls suf s =
     (case strip_prefix lit s of
        None \<Rightarrow> None
      | Some r \<Rightarrow>
          (let r' = (if skip_ws then dropWhile is_space r else r);
               g = takeWhile cls r'
           in if g \<noteq> [] \<and> prefix suf (dropWhile cls r') then Some g else None))"

fun re_search :: "(string \<Rightarrow> string option) \<Rightarrow> string \<Rightarrow> string option" where
  "re_search m [] = m []"
| "re_search m (c # cs) = (case m (c # cs) of Some g \<Rightarrow> Some g | None \<Rightarrow> re_search m cs)"

text \<open>\<^verbatim>\<open>r"GPA:\s*([\d.]+)"\<close>, \<^verbatim>\<open>r"minimum GPA of ([\d.]+)"\<close>,
  \<^verbatim>\<open>r"maximum loan amount of \$([\d,]+)"\<close> and \<^verbatim>\<open>r"interest rate of ([\d.]+)%"\<close>.\<close>

definition gpa_pattern :: "string \<Rightarrow> string option" where
  "gpa_pattern = match_here ''GPA:'' True (\<lambda>c. is_digit c \<or> c = CHR ''.'') []"

definition min_gpa_pattern :: "string \<Rightarrow> string option" where
  "min_gpa_pattern = match_here ''minimum GPA of '' False (\<lambda>c. is_digit c \<or> c = CHR ''.'') []"

definition max_loan_pattern :: "string \<Rightarrow> string option" where
  "max_loan_pattern = match_here ''maximum loan amount of $'' False (\<lambda>c. is_digit c \<or> c = CHR '','') []"

definition interest_pattern :: "string \<Rightarrow> string option" where
  "interest_pattern = match_here ''interest rate of '' False (\<lambda>c. is_digit c \<or> c = CHR ''.'') ''%''"

text \<open>
  \<^verbatim>\<open>int(s)\<close> and \<^verbatim>\<open>float(s)\<close> on the strings the groups above can hold (digits, dots
  and, for \<^verbatim>\<open>int\<close>, nothing else once the commas are removed): \<^verbatim>\<open>float\<close> wants at most
  one dot and at least one digit, \<^verbatim>\<open>int\<close> at least one digit; anything else raises
  \<^verbatim>\<open>ValueError\<close>.
\<close>

definition digit_val :: "char \<Rightarrow> nat" where
  "digit_val c = of_char c - 48"

definition digits_val :: "string \<Rightarrow> nat" where
  "digits_val s = foldl (\<lambda>a c. 10 * a + digit_val c) 0 s"

definition py_int :: "string \<Rightarrow> error + int" where
  "py_int s = (if s \<noteq> [] \<and> list_all is_digit s then Inr (int (digits_val s)) else Inl ValueError)"

definition py_float :: "string \<Rightarrow> error + rat" where
  "py_float s =
     (let ip = takeWhile is_digit s; rest = dropWhile is_digit s in
      case rest of
        [] \<Rightarrow> (if ip = [] then Inl ValueError else Inr (of_nat (digits_val ip)))
      | c # fp \<Rightarrow>
          (if c = CHR ''.'' \<and> list_all is_digit fp \<and> (ip \<noteq> [] \<or> fp \<noteq> [])
           then Inr (of_nat (digits_val ip) + of_nat (digits_val fp) / 10 ^ length fp)
           else Inl ValueError))"

text \<open>
  The idiom of the fee lookups: search the text for a literal followed by
  \<^verbatim>\<open>([\d,]+)\<close>; without a match the default stays, with a match the group is converted
  by \<^verbatim>\<open>int(group.replace(",", ""))\<close>, which raises \<^verbatim>\<open>ValueError\<close> on a group of commas only.
\<close>

definition find_amount :: "string \<Rightarrow> string \<Rightarrow> int \<Rightarrow> error + int" where
  "find_amount lit txt dflt =
     (case re_search (match_here lit False (\<lambda>c. is_digit c \<or> c = CHR '','') []) txt of
        None \<Rightarrow> Inr dflt
      | Some g \<Rightarrow> py_int (filter (\<lambda>c. c \<noteq> CHR '','') g))"

section \<open>Data model (workflow.py)\<close>

text \<open>
  A communication is a dict with the four keys type, subject, content and timestamp;
  a history entry is a dict whose keys depend on the action, kept as an association
  list in insertion order.
\<close>

record communication =
  c_type :: string
  c_subject :: string
  c_content :: string
  c_timestamp :: string

type_synonym history_entry = "(string \<times> pyval) list"

record loan_details_rec =
  eligible :: bool
  loan_amount :: int
  family_income :: int
  credit_score :: int
  interest_rate :: rat
  repayment_period_years :: int
  reasons :: "string option list"

record payment_details_rec =
  amount_paid :: int
  payment_method :: string
  payment_date :: string
  transaction_id :: string

text \<open>
  \<^verbatim>\<open>ApplicationStatus\<close>. The status is a Python string; the \<^verbatim>\<open>Literal\<close> annotation is
  checked when the model is constructed, not when a handler assigns the field.
\<close>

record application_status =
  application_id :: string
  student_name :: string
  status :: string
  documents :: "string \<rightharpoonup> string"
  verification_notes :: "string option"
  eligibility_score :: "rat option"
  shortlisting_notes :: "string option"
  communications :: "communication list"
  loan_details :: "loan_details_rec option"
  payment_details :: "payment_details_rec option"

text \<open>\<^verbatim>\<open>AdmissionState\<close>\<close>

record admission_state =
  application :: application_status
  current_agent :: string
  history :: "history_entry list"
  context_map :: "string \<rightharpoonup> pyval"

definition valid_statuses :: "string list" where
  "valid_statuses =
     [''new'', ''documents_verified'', ''documents_rejected'', ''shortlisted'', ''rejected'',
      ''admitted'', ''awaiting_payment'', ''loan_requested'', ''loan_approved'',
      ''loan_rejected'', ''payment_completed'']"


text \<open>
  The constructor \<^verbatim>\<open>ApplicationStatus(application_id=..., student_name=..., status=...,
  documents=...)\<close>: pydantic validates the fields against their annotations and raises a
  validation error for a status outside the \<^verbatim>\<open>Literal\<close>; the other fields take their
  defaults.
\<close>

definition ApplicationStatus_init ::
    "string \<Rightarrow> string \<Rightarrow> string \<Rightarrow> (string \<rightharpoonup> string) \<Rightarrow> error + application_status" where
  "ApplicationStatus_init aid name s docs =
     (if s \<in> set valid_statuses then
        Inr \<lparr>application_id = aid, student_name = name, status = s, documents = docs,
             verification_notes = None, eligibility_score = None,
             shortlisting_notes = None, communications = [],
             loan_details = None, payment_details = None\<rparr>
      else Inl ValidationError)"

section \<open>External collaborators and simulated inputs\<close>

text \<open>
  What the handlers obtain from outside the program is taken as a parameter: the
  knowledge-base search (\<^verbatim>\<open>VectorStore.search(query, n_results=1)\<close>, here the list of
  the texts of the results), the values drawn from \<^verbatim>\<open>random\<close>, Python's own formatting
  of values inside f-strings (\<open>py_str\<close> is \<^verbatim>\<open>str\<close>, \<open>fmt_money\<close> the format
  \<^verbatim>\<open>${x:,}\<close>), and the fixed texts of the messages, each an f-string or a literal of
  the source that cannot raise. The external calls are assumed to return.
  Within one workflow run each random value is drawn at most once, so a fixed value
  per run is exact.
\<close>

record env =
  kb_search :: "string \<Rightarrow> string list"
  capacity_matches :: "string \<Rightarrow> (string \<times> int) list"
  py_str :: "pyval \<Rightarrow> string"
  fmt_float2 :: "rat \<Rightarrow> string"
  rand_enrollment :: "string \<Rightarrow> int \<Rightarrow> int"
  rand_factor :: rat
  rand_family_income :: int
  rand_credit_score :: int
  fmt_money :: "int \<Rightarrow> string"
  default_shortlist_notification :: "string \<Rightarrow> pyval \<Rightarrow> string"
  payment_instructions_text :: "string \<Rightarrow> pyval \<Rightarrow> int \<Rightarrow> string"
  default_loan_information :: string
  generate_loan_approval_letter :: "string \<Rightarrow> loan_details_rec \<Rightarrow> string"
  generate_loan_rejection_letter :: "string \<Rightarrow> string option list \<Rightarrow> string"
  default_admission_letter :: "string \<Rightarrow> pyval \<Rightarrow> string"
  default_fee_slip :: "string \<Rightarrow> pyval \<Rightarrow> int \<Rightarrow> int \<Rightarrow> int \<Rightarrow> int \<Rightarrow> string"
  payment_reminder_text :: "string \<Rightarrow> string"

text \<open>\<^verbatim>\<open>state["context"].get("program", "Computer Science")\<close>\<close>

definition get_program :: "admission_state \<Rightarrow> pyval" where
  "get_program st =
     (case context_map st ''program'' of None \<Rightarrow> PyStr ''Computer Science'' | Some v \<Rightarrow> v)"

definition str_opt_float :: "env \<Rightarrow> rat option \<Rightarrow> string" where
  "str_opt_float e g = (case g of None \<Rightarrow> py_str e PyNone | Some r \<Rightarrow> py_str e (PyFloat r))"

section \<open>Document Checker (document_checker.py)\<close>

definition required_documents :: "string list" where
  "required_documents =
     [''application_form'', ''academic_transcripts'', ''id_passport'',
      ''recommendation_letters'', ''statement_of_purpose'']"

definition check_document_completeness :: "(string \<rightharpoonup> string) \<Rightarrow> (string \<times> bool) list" where
  "check_document_completeness docs = map (\<lambda>d. (d, docs d \<noteq> None)) required_documents"

record credentials_result =
  gpa :: "rat option"
  min_gpa_required :: rat
  is_valid :: bool

text \<open>The minimum GPA: 3.0 unless the knowledge base states one.\<close>

definition kb_min_gpa :: "env \<Rightarrow> error + rat" where
  "kb_min_gpa e =
     (case kb_search e ''eligibility criteria'' of
        [] \<Rightarrow> Inr 3
      | txt # _ \<Rightarrow>
          (case re_search min_gpa_pattern txt of None \<Rightarrow> Inr 3 | Some m \<Rightarrow> py_float m))"

definition validate_academic_credentials :: "env \<Rightarrow> string \<Rightarrow> error + credentials_result" where
  "validate_academic_credentials e transcript =
     (case (case re_search gpa_pattern transcript of
              None \<Rightarrow> Inr None
            | Some g \<Rightarrow> (case py_float g of Inl err \<Rightarrow> Inl err | Inr v \<Rightarrow> Inr (Some v))) of
        Inl err \<Rightarrow> Inl err
      | Inr g \<Rightarrow>
          (case kb_min_gpa e of
             Inl err \<Rightarrow> Inl err
           | Inr m \<Rightarrow>
               Inr \<lparr>gpa = g, min_gpa_required = m,
                    is_valid = (case g of None \<Rightarrow> False | Some v \<Rightarrow> v \<ge> m)\<rparr>))"

definition transcript_text :: string where
  "transcript_text =
     ''Student Academic Record'' @ [CHR 0x0A] @ ''GPA: 3.5'' @ [CHR 0x0A]
       @ ''Major: Computer Science''"

definition DocumentChecker_process :: "env \<Rightarrow> admission_state \<Rightarrow> error + admission_state" where
  "DocumentChecker_process e st =
     (let app = application st;
          completeness = check_document_completeness (documents app);
          all_documents_present = list_all snd completeness
      in if \<not> all_documents_present then
           (let missing_docs = map fst (filter (\<lambda>dp. \<not> snd dp) completeness);
                notes = ''Missing documents: '' @ join '', '' missing_docs
            in Inr (st\<lparr>application :=
                         app\<lparr>status := ''documents_rejected'', verification_notes := Some notes\<rparr>,
                       history := history st @
                         [[(''agent'', PyStr ''Document Checker''),
                           (''action'', PyStr ''document_rejection''),
                           (''reason'', PyStr notes)]]\<rparr>))
         else
           (case validate_academic_credentials e transcript_text of
              Inl err \<Rightarrow> Inl err
            | Inr cr \<Rightarrow>
                if \<not> is_valid cr then
                  (let notes = ''Academic credentials do not meet requirements. GPA: ''
                                 @ str_opt_float e (gpa cr) @ '', Required GPA: ''
                                 @ py_str e (PyFloat (min_gpa_required cr))
                   in Inr (st\<lparr>application :=
                                app\<lparr>status := ''documents_rejected'',
                                    verification_notes := Some notes\<rparr>,
                              history := history st @
                                [[(''agent'', PyStr ''Document Checker''),
                                  (''action'', PyStr ''document_rejection''),
                                  (''reason'', PyStr notes)]]\<rparr>))
                else
                  (let notes = ''All documents verified successfully.''
                   in Inr (st\<lparr>application :=
                                app\<lparr>status := ''documents_verified'',
                                    verification_notes := Some notes,
                                    eligibility_score := gpa cr\<rparr>,
                              history := history st @
                                [[(''agent'', PyStr ''Document Checker''),
                                  (''action'', PyStr ''document_verification''),
                                  (''result'', PyStr ''success''),
                                  (''notes'', PyStr notes)]],
                              current_agent := ''shortlisting_agent''\<rparr>))))"


section \<open>Shortlisting Agent (shortlisting_agent.py)\<close>

definition default_capacities :: "string \<rightharpoonup> int" where
  "default_capacities =
     [''Computer Science'' \<mapsto> 100, ''Business Administration'' \<mapsto> 150,
      ''Engineering'' \<mapsto> 120, ''Medicine'' \<mapsto> 80, ''Arts and Humanities'' \<mapsto> 200]"

text \<open>
  The capacities found in the knowledge base overwrite the defaults, a later match a
  former one. \<open>capacity_matches\<close> stands for \<^verbatim>\<open>re.findall\<close> on the text, each program
  stripped and each capacity converted.
\<close>

definition get_program_capacity :: "env \<Rightarrow> (string \<rightharpoonup> int)" where
  "get_program_capacity e =
     (case kb_search e ''university capacity'' of
        [] \<Rightarrow> default_capacities
      | txt # _ \<Rightarrow> default_capacities ++ map_of (rev (capacity_matches e txt)))"

text \<open>
  \<^verbatim>\<open>program not in capacities\<close> hashes the program: a list raises \<^verbatim>\<open>TypeError\<close>, any
  other value that is not a string is no key of the dict.
\<close>

definition check_program_availability :: "env \<Rightarrow> pyval \<Rightarrow> error + bool" where
  "check_program_availability e program =
     (let capacities = get_program_capacity e in
      case program of
        PyList _ \<Rightarrow> Inl TypeError
      | PyStr p \<Rightarrow>
          (case capacities p of
             None \<Rightarrow> Inr False
           | Some cap \<Rightarrow> Inr (rand_enrollment e p cap < cap))
      | _ \<Rightarrow> Inr False)"

definition rank_application :: "env \<Rightarrow> application_status \<Rightarrow> rat" where
  "rank_application e app =
     (let base_score = (case eligibility_score app of None \<Rightarrow> 0 | Some v \<Rightarrow> v);
          base_score' =
            (case verification_notes app of
               None \<Rightarrow> base_score
             | Some n \<Rightarrow> if n \<noteq> [] \<and> is_substr ''success'' n then base_score + 1 / 2
                         else base_score)
      in base_score' + rand_factor e)"

definition ShortlistingAgent_process :: "env \<Rightarrow> admission_state \<Rightarrow> error + admission_state" where
  "ShortlistingAgent_process e st =
     (let app = application st in
      if status app \<noteq> ''documents_verified'' then Inr st
      else
        (case kb_min_gpa e of
           Inl err \<Rightarrow> Inl err
         | Inr min_gpa \<Rightarrow>
             (case eligibility_score app of
                None \<Rightarrow> Inl TypeError
              | Some score \<Rightarrow>
                  if score < min_gpa then
                    (let notes = ''Application rejected: Eligibility score (''
                                   @ py_str e (PyFloat score)
                                   @ '') below minimum requirement (''
                                   @ py_str e (PyFloat min_gpa) @ '')''
                     in Inr (st\<lparr>application :=
                                  app\<lparr>status := ''rejected'', shortlisting_notes := Some notes\<rparr>,
                                history := history st @
                                  [[(''agent'', PyStr ''Shortlisting Agent''),
                                    (''action'', PyStr ''application_rejection''),
                                    (''reason'', PyStr notes)]]\<rparr>))
                  else
                    (let program = get_program st in
                     case check_program_availability e program of
                       Inl err \<Rightarrow> Inl err
                     | Inr available \<Rightarrow>
                         if \<not> available then
                           (let notes = ''Application rejected: No capacity available in the ''
                                          @ py_str e program @ '' program''
                            in Inr (st\<lparr>application :=
                                         app\<lparr>status := ''rejected'',
                                             shortlisting_notes := Some notes\<rparr>,
                                       history := history st @
                                         [[(''agent'', PyStr ''Shortlisting Agent''),
                                           (''action'', PyStr ''application_rejection''),
                                           (''reason'', PyStr notes)]]\<rparr>))
                         else
                           (let rank_score = rank_application e app;
                                notes = ''Application shortlisted with rank score: ''
                                          @ fmt_float2 e rank_score
                            in Inr (st\<lparr>application :=
                                         app\<lparr>status := ''shortlisted'',
                                             shortlisting_notes := Some notes\<rparr>,
                                       history := history st @
                                         [[(''agent'', PyStr ''Shortlisting Agent''),
                                           (''action'', PyStr ''application_shortlisting''),
                                           (''rank_score'', PyFloat rank_score),
                                           (''notes'', PyStr notes)]],
                                       current_agent := ''student_counselor''\<rparr>))))))"

section \<open>Student Counselor (student_counselor.py)\<close>

text \<open>
  The template branch of \<^verbatim>\<open>generate_shortlist_notification\<close> calls
  \<^verbatim>\<open>replace("[PROGRAM]", program)\<close>, which raises \<^verbatim>\<open>TypeError\<close> unless the program is a
  string; the default text is an f-string and takes any program.
\<close>

definition generate_shortlist_notification :: "env \<Rightarrow> string \<Rightarrow> pyval \<Rightarrow> error + string" where
  "generate_shortlist_notification e name program =
     (case kb_search e ''shortlist_notification'' of
        [] \<Rightarrow> Inr (default_shortlist_notification e name program)
      | template # _ \<Rightarrow>
          if template \<noteq> [] then
            (case program of
               PyStr p \<Rightarrow>
                 Inr (str_replace ''[PROGRAM]'' p (str_replace ''[STUDENT_NAME]'' name template))
             | _ \<Rightarrow> Inl TypeError)
          else Inr (default_shortlist_notification e name program))"

definition handle_payment_instructions :: "env \<Rightarrow> string \<Rightarrow> pyval \<Rightarrow> error + string" where
  "handle_payment_instructions e name program =
     (case (case kb_search e (py_str e program @ '' fees'') of
              [] \<Rightarrow> Inr 10000
            | txt # _ \<Rightarrow> find_amount ''fee amount: $'' txt 10000) of
        Inl err \<Rightarrow> Inl err
      | Inr fee_amount \<Rightarrow> Inr (payment_instructions_text e name program fee_amount))"

definition handle_loan_information :: "env \<Rightarrow> string" where
  "handle_loan_information e =
     (case kb_search e ''student loan'' of
        [] \<Rightarrow> default_loan_information e
      | txt # _ \<Rightarrow> txt)"

definition StudentCounselor_process :: "env \<Rightarrow> admission_state \<Rightarrow> error + admission_state" where
  "StudentCounselor_process e st =
     (let app = application st in
      if status app \<noteq> ''shortlisted'' then Inr st
      else
        (let program = get_program st in
         case generate_shortlist_notification e (student_name app) program of
           Inl err \<Rightarrow> Inl err
         | Inr notification \<Rightarrow>
             (let app1 = app\<lparr>communications := communications app @
                           [\<lparr>c_type = ''notification'', c_subject = ''Application Shortlisted'',
                             c_content = notification,
                             c_timestamp = ''2023-05-15T14:30:00Z''\<rparr>]\<rparr>;
                  loan_requested =
                    (case context_map st ''loan_requested'' of
                       None \<Rightarrow> False
                     | Some v \<Rightarrow> truthy v)
              in if loan_requested then
                   Inr (st\<lparr>application :=
                             app1\<lparr>communications := communications app1 @
                                    [\<lparr>c_type = ''information'',
                                      c_subject = ''Student Loan Information'',
                                      c_content = handle_loan_information e,
                                      c_timestamp = ''2023-05-15T14:35:00Z''\<rparr>],
                                  status := ''loan_requested''\<rparr>,
                           history := history st @
                             [[(''agent'', PyStr ''Student Counselor''),
                               (''action'', PyStr ''loan_information_sent''),
                               (''notes'', PyStr ''Student loan information provided'')]],
                           current_agent := ''loan_agent''\<rparr>)
                 else
                   (case handle_payment_instructions e (student_name app) program of
                      Inl err \<Rightarrow> Inl err
                    | Inr payment_info \<Rightarrow>
                        Inr (st\<lparr>application :=
                                  app1\<lparr>communications := communications app1 @
                                         [\<lparr>c_type = ''instruction'',
                                           c_subject = ''Payment Instructions'',
                                           c_content = payment_info,
                                           c_timestamp = ''2023-05-15T14:32:00Z''\<rparr>],
                                       status := ''awaiting_payment''\<rparr>,
                                history := history st @
                                  [[(''agent'', PyStr ''Student Counselor''),
                                    (''action'', PyStr ''payment_instructions_sent''),
                                    (''notes'', PyStr ''Payment instructions sent to student'')]],
                                current_agent := ''admission_officer''\<rparr>)))))"

section \<open>Loan Agent (loan_agent.py)\<close>

record policies =
  pol_max_loan_amount :: int
  pol_interest_rate :: rat
  pol_repayment_period_years :: int
  pol_grace_period_months :: int
  pol_minimum_income_requirement :: int
  pol_credit_score_requirement :: int

definition default_policies :: policies where
  "default_policies =
     \<lparr>pol_max_loan_amount = 20000, pol_interest_rate = 4, pol_repayment_period_years = 10,
      pol_grace_period_months = 6, pol_minimum_income_requirement = 25000,
      pol_credit_score_requirement = 650\<rparr>"

definition get_loan_policies :: "env \<Rightarrow> error + policies" where
  "get_loan_policies e =
     (case kb_search e ''loan policy'' of
        [] \<Rightarrow> Inr default_policies
      | policy_text # _ \<Rightarrow>
          (case (case re_search max_loan_pattern policy_text of
                   None \<Rightarrow> Inr default_policies
                 | Some g \<Rightarrow>
                     (case py_int (filter (\<lambda>c. c \<noteq> CHR '','') g) of
                        Inl err \<Rightarrow> Inl err
                      | Inr v \<Rightarrow> Inr (default_policies\<lparr>pol_max_loan_amount := v\<rparr>))) of
             Inl err \<Rightarrow> Inl err
           | Inr pol \<Rightarrow>
               (case re_search interest_pattern policy_text of
                  None \<Rightarrow> Inr pol
                | Some g \<Rightarrow>
                    (case py_float g of
                       Inl err \<Rightarrow> Inl err
                     | Inr v \<Rightarrow> Inr (pol\<lparr>pol_interest_rate := v\<rparr>)))))"

text \<open>
  \<^verbatim>\<open>int(x)\<close> on a float truncates towards zero. The amount is the product of the
  (integer) maximum with the float 0.75, 0.5 or 0.25, exact in double precision for
  every maximum below \<open>2^51\<close>.
\<close>

definition py_trunc :: "rat \<Rightarrow> int" where
  "py_trunc r = (if r \<ge> 0 then \<lfloor>r\<rfloor> else \<lceil>r\<rceil>)"

definition calculate_eligibility :: "policies \<Rightarrow> int \<Rightarrow> int \<Rightarrow> loan_details_rec" where
  "calculate_eligibility pol income credit =
     (let elig = (income \<ge> pol_minimum_income_requirement pol
                   \<and> credit \<ge> pol_credit_score_requirement pol);
          max_amount = pol_max_loan_amount pol;
          amount =
            (if elig then
               (if income < 40000 then of_int max_amount
                else if income < 60000 then of_int max_amount * (3 / 4)
                else if income < 80000 then of_int max_amount * (1 / 2)
                else of_int max_amount * (1 / 4))
             else 0)
      in \<lparr>eligible = elig,
          loan_amount = py_trunc amount,
          family_income = income,
          credit_score = credit,
          interest_rate = pol_interest_rate pol,
          repayment_period_years = pol_repayment_period_years pol,
          reasons =
            (if elig then []
             else [if income < pol_minimum_income_requirement pol
                   then Some ''Insufficient family income'' else None,
                   if credit < pol_credit_score_requirement pol
                   then Some ''Insufficient credit score'' else None])\<rparr>)"

definition reasons_val :: "string option list \<Rightarrow> pyval" where
  "reasons_val rs = PyList (map (\<lambda>r. case r of None \<Rightarrow> PyNone | Some s \<Rightarrow> PyStr s) rs)"

definition LoanAgent_process :: "env \<Rightarrow> admission_state \<Rightarrow> error + admission_state" where
  "LoanAgent_process e st =
     (let app = application st in
      if status app \<noteq> ''loan_requested'' then Inr st
      else
        (case get_loan_policies e of
           Inl err \<Rightarrow> Inl err
         | Inr pol \<Rightarrow>
             (let ld = calculate_eligibility pol (rand_family_income e) (rand_credit_score e);
                  app1 = app\<lparr>loan_details := Some ld\<rparr>
              in if eligible ld then
                   Inr (st\<lparr>application :=
                             app1\<lparr>communications := communications app1 @
                                    [\<lparr>c_type = ''letter'', c_subject = ''Loan Application Approved'',
                                      c_content = generate_loan_approval_letter e (student_name app) ld,
                                      c_timestamp = ''2023-05-20T10:15:00Z''\<rparr>],
                                  status := ''loan_approved''\<rparr>,
                           history := history st @
                             [[(''agent'', PyStr ''Loan Agent''),
                               (''action'', PyStr ''loan_approval''),
                               (''loan_amount'', PyInt (loan_amount ld)),
                               (''notes'', PyStr ''Loan application approved'')]],
                           current_agent := ''admission_officer''\<rparr>)
                 else
                   Inr (st\<lparr>application :=
                             app1\<lparr>communications := communications app1 @
                                    [\<lparr>c_type = ''letter'', c_subject = ''Loan Application Rejected'',
                                      c_content =
                                        generate_loan_rejection_letter e (student_name app) (reasons ld),
                                      c_timestamp = ''2023-05-20T10:15:00Z''\<rparr>],
                                  status := ''loan_rejected''\<rparr>,
                           history := history st @
                             [[(''agent'', PyStr ''Loan Agent''),
                               (''action'', PyStr ''loan_rejection''),
                               (''reasons'', reasons_val (reasons ld)),
                               (''notes'', PyStr ''Loan application rejected'')]],
                           current_agent := ''admission_officer''\<rparr>))))"

section \<open>Admission Officer (admission_officer.py)\<close>

definition generate_admission_letter :: "env \<Rightarrow> string \<Rightarrow> pyval \<Rightarrow> error + string" where
  "generate_admission_letter e name program =
     (case kb_search e ''admission_letter'' of
        [] \<Rightarrow> Inr (default_admission_letter e name program)
      | template # _ \<Rightarrow>
          if template \<noteq> [] then
            (case program of
               PyStr p \<Rightarrow>
                 Inr (str_replace ''[PROGRAM]'' p (str_replace ''[STUDENT_NAME]'' name template))
             | _ \<Rightarrow> Inl TypeError)
          else Inr (default_admission_letter e name program))"

text \<open>
  The three fees: 10000, 500 and 1500 unless the text found for the program states
  them; every stated fee is converted, in the order tuition, registration, facility.
\<close>

definition fee_structure :: "env \<Rightarrow> pyval \<Rightarrow> error + (int \<times> int \<times> int)" where
  "fee_structure e program =
     (case kb_search e (py_str e program @ '' fees'') of
        [] \<Rightarrow> Inr (10000, 500, 1500)
      | txt # _ \<Rightarrow>
          (case find_amount ''tuition fee: $'' txt 10000 of
             Inl err \<Rightarrow> Inl err
           | Inr tuition_fee \<Rightarrow>
               (case find_amount ''registration fee: $'' txt 500 of
                  Inl err \<Rightarrow> Inl err
                | Inr registration_fee \<Rightarrow>
                    (case find_amount ''facility fee: $'' txt 1500 of
                       Inl err \<Rightarrow> Inl err
                     | Inr facility_fee \<Rightarrow>
                         Inr (tuition_fee, registration_fee, facility_fee)))))"

definition generate_fee_slip :: "env \<Rightarrow> string \<Rightarrow> pyval \<Rightarrow> error + string" where
  "generate_fee_slip e name program =
     (case fee_structure e program of
        Inl err \<Rightarrow> Inl err
      | Inr (tuition_fee, registration_fee, facility_fee) \<Rightarrow>
          (let total_fee = tuition_fee + registration_fee + facility_fee in
           case kb_search e ''fee_slip'' of
             [] \<Rightarrow> Inr (default_fee_slip e name program tuition_fee registration_fee
                          facility_fee total_fee)
           | template # _ \<Rightarrow>
               if template \<noteq> [] then
                 (case program of
                    PyStr p \<Rightarrow>
                      Inr (str_replace ''[TOTAL_FEE]'' (fmt_money e total_fee)
                            (str_replace ''[FACILITY_FEE]'' (fmt_money e facility_fee)
                              (str_replace ''[REGISTRATION_FEE]'' (fmt_money e registration_fee)
                                (str_replace ''[TUITION_FEE]'' (fmt_money e tuition_fee)
                                  (str_replace ''[PROGRAM]'' p
                                    (str_replace ''[STUDENT_NAME]'' name template))))))
                  | _ \<Rightarrow> Inl TypeError)
               else Inr (default_fee_slip e name program tuition_fee registration_fee
                           facility_fee total_fee)))"

text \<open>
  \<^verbatim>\<open>finalize_admission\<close>: the letter is generated and appended, then the fee slip. An
  exception of either generator leaves the call, and the handler, without a result.
\<close>

definition finalize_admission :: "env \<Rightarrow> application_status \<Rightarrow> pyval \<Rightarrow> error + application_status" where
  "finalize_admission e app program =
     (case generate_admission_letter e (student_name app) program of
        Inl err \<Rightarrow> Inl err
      | Inr admission_letter \<Rightarrow>
          (case generate_fee_slip e (student_name app) program of
             Inl err \<Rightarrow> Inl err
           | Inr fee_slip \<Rightarrow>
               Inr (app\<lparr>communications := communications app @
                          [\<lparr>c_type = ''letter'', c_subject = ''Admission Letter'',
                            c_content = admission_letter,
                            c_timestamp = ''2023-05-25T09:00:00Z''\<rparr>,
                           \<lparr>c_type = ''document'', c_subject = ''Fee Slip'',
                            c_content = fee_slip,
                            c_timestamp = ''2023-05-25T09:05:00Z''\<rparr>],
                        status := ''admitted''\<rparr>)))"

text \<open>
  The three \<^verbatim>\<open>if\<close> statements of \<^verbatim>\<open>AdmissionOfficer.process\<close>, one function each: every
  one tests the status the previous one left. Only the second can raise.
\<close>

definition ao_payment_branch :: "admission_state \<Rightarrow> admission_state" where
  "ao_payment_branch st =
     (let app = application st in
      if status app = ''awaiting_payment'' then
        st\<lparr>application :=
             app\<lparr>payment_details :=
                    Some \<lparr>amount_paid = 12000, payment_method = ''Online'',
                          payment_date = ''2023-05-22T14:30:00Z'',
                          transaction_id = ''TRX12345678''\<rparr>,
                 status := ''payment_completed''\<rparr>,
           history := history st @
             [[(''agent'', PyStr ''Admission Officer''),
               (''action'', PyStr ''payment_received''),
               (''amount'', PyInt 12000),
               (''notes'', PyStr ''Payment received and processed'')]]\<rparr>
      else st)"

definition ao_finalize_branch :: "env \<Rightarrow> pyval \<Rightarrow> admission_state \<Rightarrow> error + admission_state" where
  "ao_finalize_branch e program st =
     (let app = application st in
      if status app \<in> set [''payment_completed'', ''loan_approved''] then
        (case finalize_admission e app program of
           Inl err \<Rightarrow> Inl err
         | Inr app' \<Rightarrow>
             Inr (st\<lparr>application := app',
                    history := history st @
                      [[(''agent'', PyStr ''Admission Officer''),
                        (''action'', PyStr ''admission_finalized''),
                        (''notes'', PyStr ''Admission letter and fee slip generated'')]]\<rparr>))
      else Inr st)"

definition ao_reminder_branch :: "env \<Rightarrow> admission_state \<Rightarrow> admission_state" where
  "ao_reminder_branch e st =
     (let app = application st in
      if status app = ''loan_rejected'' then
        st\<lparr>application :=
             app\<lparr>communications := communications app @
                    [\<lparr>c_type = ''letter'', c_subject = ''Payment Reminder'',
                      c_content = payment_reminder_text e (student_name app),
                      c_timestamp = ''2023-05-25T14:00:00Z''\<rparr>],
                 status := ''awaiting_payment''\<rparr>,
           history := history st @
             [[(''agent'', PyStr ''Admission Officer''),
               (''action'', PyStr ''payment_reminder_sent''),
               (''notes'', PyStr ''Payment reminder sent after loan rejection'')]]\<rparr>
      else st)"

definition AdmissionOfficer_process :: "env \<Rightarrow> admission_state \<Rightarrow> error + admission_state" where
  "AdmissionOfficer_process e st =
     (let program = get_program st in
      case ao_finalize_branch e program (ao_payment_branch st) of
        Inl err \<Rightarrow> Inl err
      | Inr st' \<Rightarrow> Inr (ao_reminder_branch e st'))"

section \<open>The workflow graph and its execution (workflow.py)\<close>

text \<open>
  \<^verbatim>\<open>create_admission_workflow\<close> builds a graph of five nodes, one per handler, with
  \<^verbatim>\<open>document_checker\<close> as entry point. \<open>next_node\<close> is the edge relation of that graph:
  the three conditional edges, the edge from the Loan Agent to the Admission Officer
  and the edge from the Admission Officer to \<^verbatim>\<open>END\<close> (here \<open>None\<close>).
\<close>

datatype node =
  document_checker | shortlisting_agent | student_counselor | loan_agent | admission_officer

fun node_process :: "env \<Rightarrow> node \<Rightarrow> admission_state \<Rightarrow> error + admission_state" where
  "node_process e document_checker st = DocumentChecker_process e st"
| "node_process e shortlisting_agent st = ShortlistingAgent_process e st"
| "node_process e student_counselor st = StudentCounselor_process e st"
| "node_process e loan_agent st = LoanAgent_process e st"
| "node_process e admission_officer st = AdmissionOfficer_process e st"

fun next_node :: "node \<Rightarrow> admission_state \<Rightarrow> node option" where
  "next_node document_checker st =
     (if status (application st) = ''documents_verified'' then Some shortlisting_agent else None)"
| "next_node shortlisting_agent st =
     (if status (application st) = ''shortlisted'' then Some student_counselor else None)"
| "next_node student_counselor st =
     (if status (application st) = ''loan_requested'' then Some loan_agent
      else Some admission_officer)"
| "next_node loan_agent st = Some admission_officer"
| "next_node admission_officer st = None"

fun node_rank :: "node \<Rightarrow> nat" where
  "node_rank document_checker = 0"
| "node_rank shortlisting_agent = 1"
| "node_rank student_counselor = 2"
| "node_rank loan_agent = 3"
| "node_rank admission_officer = 4"

text \<open>
  Running the compiled graph from a node: the node's handler runs, the edge out of the
  node is evaluated on the state the handler returned, and the run goes on at the
  target or stops at \<^verbatim>\<open>END\<close>. An exception of a handler ends the run. Besides the final
  state the model returns the list of the nodes whose handlers ran, in order.
\<close>

function invoke_from :: "env \<Rightarrow> node \<Rightarrow> admission_state \<Rightarrow> error + (node list \<times> admission_state)" where
  "invoke_from e n st =
     (case node_process e n st of
        Inl err \<Rightarrow> Inl err
      | Inr st' \<Rightarrow>
          (case next_node n st' of
             None \<Rightarrow> Inr ([n], st')
           | Some n' \<Rightarrow>
               (case invoke_from e n' st' of
                  Inl err \<Rightarrow> Inl err
                | Inr (tr, st'') \<Rightarrow> Inr (n # tr, st''))))"
  by pat_completeness auto
termination
proof (relation "measure (\<lambda>(e, n, st). 5 - node_rank n)")
  show "wf (measure (\<lambda>(e, n, st). 5 - node_rank n))" by simp
next
  fix e :: env and n :: node and st st' :: admission_state and n' :: node
  assume "next_node n st' = Some n'"
  then have "node_rank n < node_rank n'"
    by (cases n) (auto split: if_splits)
  moreover have "node_rank n' < 5" by (cases n') auto
  ultimately show "((e, n', st'), (e, n, st)) \<in> measure (\<lambda>(e, n, st). 5 - node_rank n)"
    by simp
qed

declare invoke_from.simps [simp del]

text \<open>\<^verbatim>\<open>workflow_app.invoke(state)\<close>: the run starts at the entry point.\<close>

definition invoke :: "env \<Rightarrow> admission_state \<Rightarrow> error + (node list \<times> admission_state)" where
  "invoke e st = invoke_from e document_checker st"

text \<open>
  \<^verbatim>\<open>process_application(application_data)\<close>: the dict may lack any of its keys;
  \<^verbatim>\<open>application_id\<close> and \<^verbatim>\<open>student_name\<close> are read by subscript (\<^verbatim>\<open>KeyError\<close>), the
  documents and the context with \<^verbatim>\<open>get\<close> and an empty default.
\<close>

record application_data =
  ad_application_id :: "string option"
  ad_student_name :: "string option"
  ad_documents :: "(string \<rightharpoonup> string) option"
  ad_context :: "(string \<rightharpoonup> pyval) option"

definition initial_state :: "application_data \<Rightarrow> error + admission_state" where
  "initial_state ad =
     (case ad_application_id ad of
        None \<Rightarrow> Inl KeyError
      | Some aid \<Rightarrow>
          (case ad_student_name ad of
             None \<Rightarrow> Inl KeyError
           | Some name \<Rightarrow>
               (case ApplicationStatus_init aid name ''new''
                       (case ad_documents ad of None \<Rightarrow> Map.empty | Some d \<Rightarrow> d) of
                  Inl err \<Rightarrow> Inl err
                | Inr app \<Rightarrow>
                    Inr \<lparr>application = app,
                         current_agent = ''document_checker'',
                         history = [],
                         context_map =
                           (case ad_context ad of None \<Rightarrow> Map.empty | Some c \<Rightarrow> c)\<rparr>)))"

definition process_application :: "env \<Rightarrow> application_data \<Rightarrow> error + (node list \<times> admission_state)" where
  "process_application e ad =
     (case initial_state ad of Inl err \<Rightarrow> Inl err | Inr st \<Rightarrow> invoke e st)"


text \<open>
  A workflow state handed to \<^verbatim>\<open>process_application\<close> in the place of the application
  data: of the four keys the function reads, the state dict (keys \<^verbatim>\<open>application\<close>,
  \<^verbatim>\<open>current_agent\<close>, \<^verbatim>\<open>history\<close>, \<^verbatim>\<open>context\<close>) has the context only.
\<close>

definition state_as_application_data :: "admission_state \<Rightarrow> application_data" where
  "state_as_application_data st =
     \<lparr>ad_application_id = None, ad_student_name = None, ad_documents = None,
      ad_context = Some (context_map st)\<rparr>"

section \<open>Concrete inputs\<close>

text \<open>
  An environment with an empty knowledge base (every default applies) and a financial
  profile of income 50000 and credit score 700; one with a profile that fails both loan
  thresholds; one whose knowledge base states a minimum GPA of 3.8; one whose knowledge
  base states the minimum GPA 3.0 at the end of a sentence; one whose knowledge base
  gives a tuition fee without digits. Then two document dicts and a fresh state with a
  given status.
\<close>

definition env0 :: env where
  "env0 =
     \<lparr>kb_search = (\<lambda>q. []),
      capacity_matches = (\<lambda>t. []),
      py_str = (\<lambda>v. case v of PyStr s \<Rightarrow> s | _ \<Rightarrow> ''<value>''),
      fmt_float2 = (\<lambda>r. ''<score>''),
      rand_enrollment = (\<lambda>p cap. 0),
      rand_factor = 0,
      rand_family_income = 50000,
      rand_credit_score = 700,
      fmt_money = (\<lambda>x. ''<amount>''),
      default_shortlist_notification = (\<lambda>name program. ''shortlisted''),
      payment_instructions_text = (\<lambda>name program fee. ''please pay''),
      default_loan_information = ''loan information'',
      generate_loan_approval_letter = (\<lambda>name ld. ''loan approved''),
      generate_loan_rejection_letter = (\<lambda>name rs. ''loan rejected''),
      default_admission_letter = (\<lambda>name program. ''admitted''),
      default_fee_slip = (\<lambda>name program tuition registration facility total. ''fee slip''),
      payment_reminder_text = (\<lambda>name. ''payment reminder'')\<rparr>"

definition env_poor :: env where
  "env_poor = env0\<lparr>rand_family_income := 22000, rand_credit_score := 600\<rparr>"

definition env_strict :: env where
  "env_strict =
     env0\<lparr>kb_search :=
            (\<lambda>q. if q = ''eligibility criteria''
                 then [''Applicants need a minimum GPA of 3.8 to be considered.''] else [])\<rparr>"

definition env_sentence :: env where
  "env_sentence =
     env0\<lparr>kb_search :=
            (\<lambda>q. if q = ''eligibility criteria''
                 then [''Applicants need a minimum GPA of 3.0.''] else [])\<rparr>"

definition env_fee :: env where
  "env_fee =
     env0\<lparr>kb_search :=
            (\<lambda>q. if q = ''Computer Science fees''
                 then [''Computer Science: tuition fee: $, registration fee: $500''] else [])\<rparr>"

definition docs_full :: "string \<rightharpoonup> string" where
  "docs_full =
     [''application_form'' \<mapsto> ''form.pdf'', ''academic_transcripts'' \<mapsto> ''transcripts.pdf'',
      ''id_passport'' \<mapsto> ''passport.pdf'', ''recommendation_letters'' \<mapsto> ''letters.pdf'',
      ''statement_of_purpose'' \<mapsto> ''sop.pdf'']"

definition docs_no_id :: "string \<rightharpoonup> string" where
  "docs_no_id =
     [''application_form'' \<mapsto> ''form.pdf'', ''academic_transcripts'' \<mapsto> ''transcripts.pdf'',
      ''recommendation_letters'' \<mapsto> ''letters.pdf'', ''statement_of_purpose'' \<mapsto> ''sop.pdf'']"

definition state_with :: "string \<Rightarrow> (string \<rightharpoonup> string) \<Rightarrow> (string \<rightharpoonup> pyval) \<Rightarrow> admission_state" where
  "state_with s docs ctx =
     \<lparr>application =
        \<lparr>application_id = ''A1'', student_name = ''Ada'', status = s, documents = docs,
         verification_notes = None, eligibility_score = None, shortlisting_notes = None,
         communications = [], loan_details = None, payment_details = None\<rparr>,
      current_agent = ''document_checker'', history = [], context_map = ctx\<rparr>"

text \<open>A submission with all five documents that asks for a loan.\<close>

definition ad_loan :: application_data where
  "ad_loan =
     \<lparr>ad_application_id = Some ''A1'', ad_student_name = Some ''Ada'',
      ad_documents = Some docs_full,
      ad_context = Some [''loan_requested'' \<mapsto> PyBool True]\<rparr>"

text \<open>The statuses a run of the workflow from a fresh submission can end with.\<close>

definition final_statuses :: "string list" where
  "final_statuses = [''documents_rejected'', ''rejected'', ''admitted'', ''awaiting_payment'']"

definition terminal_statuses :: "string list" where
  "terminal_statuses = [''documents_rejected'', ''rejected'', ''admitted'']"

text \<open>The statuses each node is entered with in a run from the entry point.\<close>

fun entry_status :: "node \<Rightarrow> string \<Rightarrow> bool" where
  "entry_status document_checker s = True"
| "entry_status shortlisting_agent s = (s = ''documents_verified'')"
| "entry_status student_counselor s = (s = ''shortlisted'')"
| "entry_status loan_agent s = (s = ''loan_requested'')"
| "entry_status admission_officer s =
     (s \<in> set [''awaiting_payment'', ''loan_approved'', ''loan_rejected''])"

section \<open>Arithmetic of the loan tiers\<close>






section \<open>Handlers called on a status they do not handle\<close>




lemma AdmissionOfficer_pass_through:
  "status (application st) \<notin> set [''awaiting_payment'', ''payment_completed'', ''loan_approved'', ''loan_rejected'']
   \<Longrightarrow> AdmissionOfficer_process e st = Inr st"
  by (simp add: AdmissionOfficer_process_def ao_payment_branch_def ao_finalize_branch_def
        ao_reminder_branch_def Let_def)

text \<open>
  Claim C9 at the Document Checker: the handler has no test of the status. Called on an
  admitted application with all five documents it sets the status
  \<^verbatim>\<open>documents_verified\<close>, stores the score and appends a history entry, where the
  Shortlisting Agent, the Student Counselor and the Loan Agent return the state as it
  is.
\<close>

theorem document_checker_ignores_status:
  "map_sum id (\<lambda>s. (status (application s), eligibility_score (application s), length (history s)))
     (DocumentChecker_process env0 (state_with ''admitted'' docs_full Map.empty))
   = Inr (''documents_verified'', Some (7 / 2), 1)"
  by (simp add: DocumentChecker_process_def check_document_completeness_def required_documents_def
        state_with_def docs_full_def validate_academic_credentials_def kb_min_gpa_def env0_def
        transcript_text_def gpa_pattern_def match_here_def is_digit_def is_space_def
        py_float_def digits_val_def digit_val_def Let_def)

section \<open>The Document Checker\<close>

lemma is_substr_sublist: "is_substr p s \<longleftrightarrow> sublist p s"
  by (induction s) (auto simp: sublist_Cons_right)

lemma sublist_join: "d \<in> set xs \<Longrightarrow> sublist d (join sep xs)"
proof (induction sep xs rule: join.induct)
  case (1 sep)
  then show ?case by simp
next
  case (2 sep x)
  then show ?case by simp
next
  case (3 sep x y ys)
  show ?case
  proof (cases "d = x")
    case True
    have "sublist x ([] @ x @ (sep @ join sep (y # ys)))" by (rule sublist_appendI)
    with True show ?thesis by simp
  next
    case False
    with 3 have "sublist d (join sep (y # ys))" by simp
    then have "sublist d ((x @ sep) @ join sep (y # ys))" by (simp only: sublist_append) simp
    then show ?thesis by simp
  qed
qed

lemma missing_listed:
  assumes "d \<in> set required_documents" and "docs d = None"
  shows "is_substr d (''Missing documents: '' @
           join '', '' (map fst (filter (\<lambda>dp. \<not> snd dp) (check_document_completeness docs))))"
proof -
  have "d \<in> set (map fst (filter (\<lambda>dp. \<not> snd dp) (check_document_completeness docs)))"
    using assms by (force simp: check_document_completeness_def)
  then have "sublist d (join '', '' (map fst (filter (\<lambda>dp. \<not> snd dp) (check_document_completeness docs))))"
    by (rule sublist_join)
  then show ?thesis unfolding is_substr_sublist by (simp only: sublist_append) simp
qed

lemma all_present_iff:
  "list_all snd (check_document_completeness docs) \<longleftrightarrow> (\<forall>d \<in> set required_documents. docs d \<noteq> None)"
  by (simp add: check_document_completeness_def list_all_iff)

lemma transcript_gpa: "re_search gpa_pattern transcript_text = Some ''3.5''"
  by (simp add: transcript_text_def gpa_pattern_def match_here_def is_digit_def is_space_def)

lemma float_3_5: "py_float ''3.5'' = Inr (7 / 2)"
  by (simp add: py_float_def is_digit_def digits_val_def digit_val_def)

lemma validate_transcript:
  "validate_academic_credentials e transcript_text =
     (case kb_min_gpa e of
        Inl err \<Rightarrow> Inl err
      | Inr m \<Rightarrow> Inr \<lparr>gpa = Some (7 / 2), min_gpa_required = m, is_valid = (m \<le> 7 / 2)\<rparr>)"
  by (simp add: validate_academic_credentials_def transcript_gpa float_3_5 split: sum.splits)

lemma kb_min_gpa_default: "kb_search e ''eligibility criteria'' = [] \<Longrightarrow> kb_min_gpa e = Inr 3"
  by (simp add: kb_min_gpa_def)


lemma DocumentChecker_missing:
  assumes "\<not> (\<forall>d \<in> set required_documents. documents (application st) d \<noteq> None)"
  shows "\<exists>st' notes. DocumentChecker_process e st = Inr st'
           \<and> status (application st') = ''documents_rejected''
           \<and> verification_notes (application st') = Some notes
           \<and> (\<forall>d \<in> set required_documents.
                 documents (application st) d = None \<longrightarrow> is_substr d notes)"
proof -
  from assms have n: "\<not> list_all snd (check_document_completeness (documents (application st)))"
    by (simp only: all_present_iff not_False_eq_True)
  show ?thesis
    using n missing_listed[of _ "documents (application st)"]
    by (simp add: DocumentChecker_process_def Let_def)
qed

lemma DocumentChecker_complete:
  assumes "\<forall>d \<in> set required_documents. documents (application st) d \<noteq> None"
  shows "DocumentChecker_process e st =
     (case kb_min_gpa e of
        Inl err \<Rightarrow> Inl err
      | Inr m \<Rightarrow>
          if m \<le> 7 / 2 then
            Inr (st\<lparr>application :=
                      (application st)\<lparr>status := ''documents_verified'',
                          verification_notes := Some ''All documents verified successfully.'',
                          eligibility_score := Some (7 / 2)\<rparr>,
                    history := history st @
                      [[(''agent'', PyStr ''Document Checker''),
                        (''action'', PyStr ''document_verification''),
                        (''result'', PyStr ''success''),
                        (''notes'', PyStr ''All documents verified successfully.'')]],
                    current_agent := ''shortlisting_agent''\<rparr>)
          else
            Inr (st\<lparr>application :=
                      (application st)\<lparr>status := ''documents_rejected'',
                          verification_notes :=
                            Some (''Academic credentials do not meet requirements. GPA: ''
                                  @ py_str e (PyFloat (7 / 2)) @ '', Required GPA: ''
                                  @ py_str e (PyFloat m))\<rparr>,
                    history := history st @
                      [[(''agent'', PyStr ''Document Checker''),
                        (''action'', PyStr ''document_rejection''),
                        (''reason'', PyStr (''Academic credentials do not meet requirements. GPA: ''
                                  @ py_str e (PyFloat (7 / 2)) @ '', Required GPA: ''
                                  @ py_str e (PyFloat m)))]]\<rparr>))"
proof -
  from assms have n: "list_all snd (check_document_completeness (documents (application st)))"
    by (simp only: all_present_iff)
  show ?thesis
    using n
    by (simp add: DocumentChecker_process_def validate_transcript str_opt_float_def Let_def
          split: sum.splits)
qed


text \<open>
  What the Document Checker does when it returns. If one of the five required document
  types is missing, the status becomes \<^verbatim>\<open>documents_rejected\<close> and the verification
  notes contain every missing type. If all five are present and the credentials are
  validated, a score at or above the threshold (3.0 when the knowledge base holds no
  text) gives \<^verbatim>\<open>documents_verified\<close> with the score stored, a score below it
  \<^verbatim>\<open>documents_rejected\<close>.
\<close>

lemma DocumentChecker_outcomes:
  "(\<not> (\<forall>d \<in> set required_documents. documents (application st) d \<noteq> None) \<longrightarrow>
      (\<exists>st' notes. DocumentChecker_process e st = Inr st'
         \<and> status (application st') = ''documents_rejected''
         \<and> verification_notes (application st') = Some notes
         \<and> (\<forall>d \<in> set required_documents.
               documents (application st) d = None \<longrightarrow> is_substr d notes)))
   \<and> ((\<forall>d \<in> set required_documents. documents (application st) d \<noteq> None) \<longrightarrow>
      (\<forall>cr. validate_academic_credentials e transcript_text = Inr cr \<longrightarrow>
         (\<exists>st'. DocumentChecker_process e st = Inr st'
            \<and> (case gpa cr of
                 None \<Rightarrow> status (application st') = ''documents_rejected''
               | Some g \<Rightarrow>
                   if min_gpa_required cr \<le> g
                   then status (application st') = ''documents_verified''
                      \<and> eligibility_score (application st') = Some g
                   else status (application st') = ''documents_rejected''))))
   \<and> (kb_search e ''eligibility criteria'' = [] \<longrightarrow>
        validate_academic_credentials e transcript_text
          = Inr \<lparr>gpa = Some (7 / 2), min_gpa_required = 3, is_valid = True\<rparr>)"
proof (intro conjI impI allI)
  assume "\<not> (\<forall>d \<in> set required_documents. documents (application st) d \<noteq> None)"
  then show "\<exists>st' notes. DocumentChecker_process e st = Inr st'
         \<and> status (application st') = ''documents_rejected''
         \<and> verification_notes (application st') = Some notes
         \<and> (\<forall>d \<in> set required_documents.
               documents (application st) d = None \<longrightarrow> is_substr d notes)"
    by (rule DocumentChecker_missing)
next
  fix cr
  assume a: "\<forall>d \<in> set required_documents. documents (application st) d \<noteq> None"
    and v: "validate_academic_credentials e transcript_text = Inr cr"
  from v show "\<exists>st'. DocumentChecker_process e st = Inr st'
            \<and> (case gpa cr of
                 None \<Rightarrow> status (application st') = ''documents_rejected''
               | Some g \<Rightarrow>
                   if min_gpa_required cr \<le> g
                   then status (application st') = ''documents_verified''
                      \<and> eligibility_score (application st') = Some g
                   else status (application st') = ''documents_rejected'')"
    unfolding DocumentChecker_complete[OF a] validate_transcript
    by (auto split: sum.splits)
next
  assume "kb_search e ''eligibility criteria'' = []"
  then show "validate_academic_credentials e transcript_text
          = Inr \<lparr>gpa = Some (7 / 2), min_gpa_required = 3, is_valid = True\<rparr>"
    by (simp add: validate_transcript kb_min_gpa_default)
qed

lemma docs_full_complete: "\<forall>d \<in> set required_documents. docs_full d \<noteq> None"
  by (simp add: required_documents_def docs_full_def)

lemma docs_no_id_missing: "\<not> (\<forall>d \<in> set required_documents. docs_no_id d \<noteq> None)"
  by (simp add: required_documents_def docs_no_id_def)

lemma kb_min_gpa_env_strict: "kb_min_gpa env_strict = Inr (19 / 5)"
  by (simp add: kb_min_gpa_def env_strict_def env0_def min_gpa_pattern_def match_here_def
        is_digit_def py_float_def digits_val_def digit_val_def)

lemma float_trailing_dot: "py_float ''3.0.'' = Inl ValueError"
  by (simp add: py_float_def is_digit_def)

lemma kb_min_gpa_env_sentence: "kb_min_gpa env_sentence = Inl ValueError"
  by (simp add: kb_min_gpa_def env_sentence_def env0_def min_gpa_pattern_def match_here_def
        is_digit_def float_trailing_dot)

text \<open>
  Claim C7 on the code: with all five documents present and the knowledge base stating
  the threshold as \<^verbatim>\<open>... a minimum GPA of 3.0.\<close>, the score 3.5 is above the threshold
  3.0 and the claim gives \<^verbatim>\<open>documents_verified\<close>. The pattern \<^verbatim>\<open>([\d.]+)\<close> takes the
  full stop of the sentence into the group, \<^verbatim>\<open>float("3.0.")\<close> raises \<^verbatim>\<open>ValueError\<close>, and
  the Document Checker returns no state at all.
\<close>

theorem document_checker_threshold_sentence_raises:
  "re_search min_gpa_pattern ''Applicants need a minimum GPA of 3.0.'' = Some ''3.0.''
   \<and> DocumentChecker_process env_sentence (state_with ''new'' docs_full Map.empty)
       = Inl ValueError"
proof (intro conjI)
  show "re_search min_gpa_pattern ''Applicants need a minimum GPA of 3.0.'' = Some ''3.0.''"
    by (simp add: min_gpa_pattern_def match_here_def is_digit_def)
  have d: "\<forall>d \<in> set required_documents.
             documents (application (state_with ''new'' docs_full Map.empty)) d \<noteq> None"
    using docs_full_complete by (simp add: state_with_def)
  show "DocumentChecker_process env_sentence (state_with ''new'' docs_full Map.empty)
          = Inl ValueError"
    unfolding DocumentChecker_complete[OF d] by (simp add: kb_min_gpa_env_sentence)
qed

section \<open>Independence from the contents of the documents\<close>

text \<open>
  Claim C10, as stated, fails in its second half: when the knowledge base states a
  minimum GPA above 3.5 (here 3.8), an application with all five documents is rejected
  and its eligibility score is not set.
\<close>

theorem document_checker_score_not_set_counterexample:
  "map_sum id (\<lambda>s. (status (application s), eligibility_score (application s)))
     (DocumentChecker_process env_strict (state_with ''new'' docs_full Map.empty))
   = Inr (''documents_rejected'', None)"
  using docs_full_complete
  by (simp add: DocumentChecker_complete state_with_def kb_min_gpa_env_strict)

text \<open>
  Claim C10, amended. For two states whose applications both hold all five required
  document keys, whatever strings the keys map to, the Document Checker fails in both
  runs or returns in both, with the same status and the same verification notes; the
  outcome depends on the threshold of the knowledge base only. Whenever the outcome is
  \<^verbatim>\<open>documents_verified\<close>, as it is when the knowledge base states no threshold, the
  eligibility score is 3.5 in both runs, the value of the hardcoded transcript;
  otherwise each application keeps the score it had.
\<close>

theorem document_checker_content_independent:
  assumes "\<forall>d \<in> set required_documents. documents (application st1) d \<noteq> None"
    and "\<forall>d \<in> set required_documents. documents (application st2) d \<noteq> None"
  shows "((\<exists>err. DocumentChecker_process e st1 = Inl err \<and> DocumentChecker_process e st2 = Inl err)
        \<or> (\<exists>s1 s2. DocumentChecker_process e st1 = Inr s1 \<and> DocumentChecker_process e st2 = Inr s2
             \<and> status (application s1) = status (application s2)
             \<and> verification_notes (application s1) = verification_notes (application s2)
             \<and> (if status (application s1) = ''documents_verified''
                then eligibility_score (application s1) = Some (7 / 2)
                   \<and> eligibility_score (application s2) = Some (7 / 2)
                else eligibility_score (application s1) = eligibility_score (application st1)
                   \<and> eligibility_score (application s2) = eligibility_score (application st2))))
       \<and> (kb_search e ''eligibility criteria'' = [] \<longrightarrow>
            (\<exists>s1. DocumentChecker_process e st1 = Inr s1
                \<and> status (application s1) = ''documents_verified''))"
proof (cases "kb_min_gpa e")
  case (Inl err)
  then show ?thesis
    unfolding DocumentChecker_complete[OF assms(1)] DocumentChecker_complete[OF assms(2)]
    by (auto simp: kb_min_gpa_def)
next
  case (Inr m)
  then show ?thesis
    unfolding DocumentChecker_complete[OF assms(1)] DocumentChecker_complete[OF assms(2)]
    by (auto simp: kb_min_gpa_def)
qed

theorem document_checker_content_independent_witness:
  "\<exists>s1 s2. DocumentChecker_process env0 (state_with ''new'' docs_full Map.empty) = Inr s1
      \<and> DocumentChecker_process env0
           (state_with ''new'' (docs_full(''academic_transcripts'' \<mapsto> ''GPA: 1.0'')) Map.empty) = Inr s2
      \<and> status (application s1) = ''documents_verified''
      \<and> status (application s2) = ''documents_verified''
      \<and> eligibility_score (application s1) = Some (7 / 2)
      \<and> eligibility_score (application s2) = Some (7 / 2)"
proof -
  have a: "\<forall>d \<in> set required_documents.
             documents (application (state_with ''new'' docs_full Map.empty)) d \<noteq> None"
    using docs_full_complete by (simp add: state_with_def)
  have b: "\<forall>d \<in> set required_documents.
             documents (application (state_with ''new''
               (docs_full(''academic_transcripts'' \<mapsto> ''GPA: 1.0'')) Map.empty)) d \<noteq> None"
    using docs_full_complete by (simp add: state_with_def)
  have k: "kb_search env0 ''eligibility criteria'' = []" by (simp add: env0_def)
  show ?thesis
    using document_checker_content_independent[OF a b, of env0] k
    by auto
qed

section \<open>The texts of the messages\<close>

lemma generate_shortlist_notification_str:
  "\<exists>n. generate_shortlist_notification e name (PyStr p) = Inr n"
  by (simp add: generate_shortlist_notification_def split: list.splits)

lemma generate_admission_letter_str:
  "\<exists>n. generate_admission_letter e name (PyStr p) = Inr n"
  by (simp add: generate_admission_letter_def split: list.splits)

lemma handle_payment_instructions_default:
  "kb_search e (py_str e program @ '' fees'') = []
   \<Longrightarrow> handle_payment_instructions e name program
         = Inr (payment_instructions_text e name program 10000)"
  by (simp add: handle_payment_instructions_def)

lemma generate_fee_slip_default:
  "kb_search e (py_str e (PyStr p) @ '' fees'') = []
   \<Longrightarrow> \<exists>f. generate_fee_slip e name (PyStr p) = Inr f"
  by (simp add: generate_fee_slip_def fee_structure_def Let_def split: list.splits)

section \<open>The Student Counselor's branches\<close>

text \<open>
  Claim C5, as stated, fails: on a shortlisted application with the context flag
  \<^verbatim>\<open>loan_requested\<close> false a call of the Student Counselor appends two communications
  to an empty log, the shortlist notification and the payment instructions, not one.
\<close>

theorem student_counselor_one_communication_counterexample:
  "communications (application (state_with ''shortlisted'' docs_full [''loan_requested'' \<mapsto> PyBool False])) = []
   \<and> map_sum id (\<lambda>s. map c_subject (communications (application s)))
        (StudentCounselor_process env0
          (state_with ''shortlisted'' docs_full [''loan_requested'' \<mapsto> PyBool False]))
       = Inr [''Application Shortlisted'', ''Payment Instructions'']"
  by (simp add: StudentCounselor_process_def generate_shortlist_notification_def
        handle_payment_instructions_def get_program_def state_with_def env0_def Let_def)

text \<open>
  Claim C5, amended. On a state with status \<^verbatim>\<open>shortlisted\<close> whose program is a string,
  the Student Counselor appends the shortlist notification and then, in each branch,
  exactly one communication and exactly one history entry, two communications in a
  call. When the context flag \<^verbatim>\<open>loan_requested\<close> is true the branch appends the loan
  information and the status becomes \<^verbatim>\<open>loan_requested\<close>. When it is false or absent and
  the payment instructions are generated, as they are whenever the knowledge base holds
  no text on the fees of the program, the branch appends the payment instructions and
  the status becomes \<^verbatim>\<open>awaiting_payment\<close>.
\<close>

theorem student_counselor_branches:
  assumes "status (application st) = ''shortlisted''"
    and "get_program st = PyStr p"
  shows "\<exists>ntext.
          generate_shortlist_notification e (student_name (application st)) (PyStr p) = Inr ntext
        \<and> ((case context_map st ''loan_requested'' of None \<Rightarrow> False | Some v \<Rightarrow> truthy v) \<longrightarrow>
            (\<exists>st' h. StudentCounselor_process e st = Inr st'
               \<and> communications (application st') = communications (application st) @
                    [\<lparr>c_type = ''notification'', c_subject = ''Application Shortlisted'',
                      c_content = ntext, c_timestamp = ''2023-05-15T14:30:00Z''\<rparr>,
                     \<lparr>c_type = ''information'', c_subject = ''Student Loan Information'',
                      c_content = handle_loan_information e,
                      c_timestamp = ''2023-05-15T14:35:00Z''\<rparr>]
               \<and> history st' = history st @ [h]
               \<and> status (application st') = ''loan_requested''))
        \<and> (\<not> (case context_map st ''loan_requested'' of None \<Rightarrow> False | Some v \<Rightarrow> truthy v) \<longrightarrow>
            (\<forall>ptext. handle_payment_instructions e (student_name (application st)) (PyStr p)
                       = Inr ptext \<longrightarrow>
               (\<exists>st' h. StudentCounselor_process e st = Inr st'
                  \<and> communications (application st') = communications (application st) @
                       [\<lparr>c_type = ''notification'', c_subject = ''Application Shortlisted'',
                         c_content = ntext, c_timestamp = ''2023-05-15T14:30:00Z''\<rparr>,
                        \<lparr>c_type = ''instruction'', c_subject = ''Payment Instructions'',
                         c_content = ptext, c_timestamp = ''2023-05-15T14:32:00Z''\<rparr>]
                  \<and> history st' = history st @ [h]
                  \<and> status (application st') = ''awaiting_payment'')))
        \<and> (kb_search e (py_str e (PyStr p) @ '' fees'') = [] \<longrightarrow>
            (\<exists>ptext. handle_payment_instructions e (student_name (application st)) (PyStr p)
                       = Inr ptext))"
proof -
  obtain ntext where n: "generate_shortlist_notification e (student_name (application st)) (PyStr p)
                          = Inr ntext"
    using generate_shortlist_notification_str by blast
  show ?thesis
    using assms n
    by (simp add: StudentCounselor_process_def handle_payment_instructions_default Let_def)
qed

theorem student_counselor_branches_witness:
  "(\<exists>st' n c h.
      StudentCounselor_process env0
          (state_with ''shortlisted'' docs_full [''loan_requested'' \<mapsto> PyBool True]) = Inr st'
    \<and> communications (application st') = [n, c]
    \<and> c_subject n = ''Application Shortlisted''
    \<and> c_subject c = ''Student Loan Information''
    \<and> history st' = [h]
    \<and> status (application st') = ''loan_requested'')
   \<and> (\<exists>st' n c h.
      StudentCounselor_process env0
          (state_with ''shortlisted'' docs_full [''loan_requested'' \<mapsto> PyBool False]) = Inr st'
    \<and> communications (application st') = [n, c]
    \<and> c_subject n = ''Application Shortlisted''
    \<and> c_subject c = ''Payment Instructions''
    \<and> history st' = [h]
    \<and> status (application st') = ''awaiting_payment'')"
proof (rule conjI)
  let ?S = "state_with ''shortlisted'' docs_full [''loan_requested'' \<mapsto> PyBool True]"
  have s: "status (application ?S) = ''shortlisted''"
    and g: "get_program ?S = PyStr ''Computer Science''"
    and c: "communications (application ?S) = []"
    and h: "history ?S = []"
    and f: "context_map ?S ''loan_requested'' = Some (PyBool True)"
    by (simp_all add: state_with_def get_program_def)
  show "\<exists>st' n c h. StudentCounselor_process env0 ?S = Inr st'
    \<and> communications (application st') = [n, c]
    \<and> c_subject n = ''Application Shortlisted''
    \<and> c_subject c = ''Student Loan Information''
    \<and> history st' = [h]
    \<and> status (application st') = ''loan_requested''"
    using student_counselor_branches[OF s g, of env0]
    unfolding c h f by auto
next
  let ?S = "state_with ''shortlisted'' docs_full [''loan_requested'' \<mapsto> PyBool False]"
  have s: "status (application ?S) = ''shortlisted''"
    and g: "get_program ?S = PyStr ''Computer Science''"
    and c: "communications (application ?S) = []"
    and h: "history ?S = []"
    and f: "context_map ?S ''loan_requested'' = Some (PyBool False)"
    by (simp_all add: state_with_def get_program_def)
  have k: "kb_search env0 (py_str env0 (PyStr ''Computer Science'') @ '' fees'') = []"
    by (simp add: env0_def)
  show "\<exists>st' n c h. StudentCounselor_process env0 ?S = Inr st'
    \<and> communications (application st') = [n, c]
    \<and> c_subject n = ''Application Shortlisted''
    \<and> c_subject c = ''Payment Instructions''
    \<and> history st' = [h]
    \<and> status (application st') = ''awaiting_payment''"
    using student_counselor_branches[OF s g, of env0] k
    unfolding c h f by auto
qed

section \<open>The Admission Officer's cascade\<close>

lemma AdmissionOfficer_cascade:
  assumes "status (application st) = ''awaiting_payment''"
    and "generate_admission_letter e (student_name (application st)) (get_program st) = Inr letter"
    and "generate_fee_slip e (student_name (application st)) (get_program st) = Inr slip"
  shows "\<exists>st'. AdmissionOfficer_process e st = Inr st'
       \<and> status (application (ao_payment_branch st)) = ''payment_completed''
       \<and> ao_finalize_branch e (get_program st) (ao_payment_branch st) = Inr st'
       \<and> status (application st') = ''admitted''
       \<and> communications (application st') =
            communications (application st) @
            [\<lparr>c_type = ''letter'', c_subject = ''Admission Letter'',
              c_content = letter, c_timestamp = ''2023-05-25T09:00:00Z''\<rparr>,
             \<lparr>c_type = ''document'', c_subject = ''Fee Slip'',
              c_content = slip, c_timestamp = ''2023-05-25T09:05:00Z''\<rparr>]
       \<and> history st' = history st @
            [[(''agent'', PyStr ''Admission Officer''), (''action'', PyStr ''payment_received''),
              (''amount'', PyInt 12000), (''notes'', PyStr ''Payment received and processed'')],
             [(''agent'', PyStr ''Admission Officer''), (''action'', PyStr ''admission_finalized''),
              (''notes'', PyStr ''Admission letter and fee slip generated'')]]"
  using assms
  by (simp add: AdmissionOfficer_process_def ao_payment_branch_def ao_finalize_branch_def
        ao_reminder_branch_def finalize_admission_def Let_def)

lemma generate_fee_slip_env_fee:
  "generate_fee_slip env_fee ''Ada'' (PyStr ''Computer Science'') = Inl ValueError"
  by (simp add: generate_fee_slip_def fee_structure_def find_amount_def match_here_def
        is_digit_def py_int_def env_fee_def env0_def)

text \<open>
  Claim C6 on the code: the cascade does not always reach \<^verbatim>\<open>admitted\<close>. When the text
  the knowledge base holds on the fees of the program gives the tuition fee as
  \<^verbatim>\<open>tuition fee: $,\<close> the group of the pattern \<^verbatim>\<open>([\d,]+)\<close> is a comma, \<^verbatim>\<open>int("")\<close> raises
  \<^verbatim>\<open>ValueError\<close> inside \<^verbatim>\<open>generate_fee_slip\<close>, and the call of the Admission Officer on a
  state with status \<^verbatim>\<open>awaiting_payment\<close> ends with that exception, after the first
  branch has recorded the payment and set \<^verbatim>\<open>payment_completed\<close>.
\<close>

theorem admission_officer_cascade_raises:
  "status (application (ao_payment_branch (state_with ''awaiting_payment'' docs_full Map.empty)))
     = ''payment_completed''
   \<and> generate_admission_letter env_fee ''Ada'' (PyStr ''Computer Science'') = Inr ''admitted''
   \<and> generate_fee_slip env_fee ''Ada'' (PyStr ''Computer Science'') = Inl ValueError
   \<and> AdmissionOfficer_process env_fee (state_with ''awaiting_payment'' docs_full Map.empty)
       = Inl ValueError"
proof (intro conjI)
  show "status (application (ao_payment_branch (state_with ''awaiting_payment'' docs_full Map.empty)))
     = ''payment_completed''"
    by (simp add: ao_payment_branch_def state_with_def)
  show l: "generate_admission_letter env_fee ''Ada'' (PyStr ''Computer Science'') = Inr ''admitted''"
    by (simp add: generate_admission_letter_def env_fee_def env0_def)
  show "generate_fee_slip env_fee ''Ada'' (PyStr ''Computer Science'') = Inl ValueError"
    by (rule generate_fee_slip_env_fee)
  show "AdmissionOfficer_process env_fee (state_with ''awaiting_payment'' docs_full Map.empty)
       = Inl ValueError"
    by (simp add: AdmissionOfficer_process_def ao_payment_branch_def ao_finalize_branch_def
          finalize_admission_def get_program_def state_with_def l generate_fee_slip_env_fee
          Let_def)
qed

section \<open>Runs of the workflow\<close>

lemma next_node_forward: "next_node n s = Some n' \<Longrightarrow> node_rank n < node_rank n'"
  by (cases n) (auto split: if_splits)

lemma node_rank_le: "node_rank n \<le> 4"
  by (cases n) auto

lemma invoke_from_admission_officer:
  "invoke_from e admission_officer st =
     (case AdmissionOfficer_process e st of
        Inl err \<Rightarrow> Inl err
      | Inr st' \<Rightarrow> Inr ([admission_officer], st'))"
  by (subst invoke_from.simps) (simp split: sum.splits)

lemma AdmissionOfficer_loan_rejected:
  "status (application st) = ''loan_rejected''
   \<Longrightarrow> AdmissionOfficer_process e st = Inr (ao_reminder_branch e st)"
  by (simp add: AdmissionOfficer_process_def ao_payment_branch_def ao_finalize_branch_def Let_def)

lemma invoke_from_head:
  assumes "invoke_from e n st = Inr (tr, st')"
  shows "tr \<noteq> [] \<and> hd tr = n"
  using assms
  by (subst (asm) invoke_from.simps) (auto split: sum.splits option.splits)

lemma invoke_from_length:
  "invoke_from e n st = Inr (tr, st') \<Longrightarrow> length tr + node_rank n \<le> 5"
proof (induction e n st arbitrary: tr st' rule: invoke_from.induct)
  case (1 e n st)
  from "1.prems" obtain s1 where p: "node_process e n st = Inr s1"
    by (subst (asm) invoke_from.simps) (auto split: sum.splits)
  show ?case
  proof (cases "next_node n s1")
    case None
    with p "1.prems" have "tr = [n]"
      by (subst (asm) invoke_from.simps) simp
    then show ?thesis using node_rank_le[of n] by simp
  next
    case (Some n')
    with p "1.prems" obtain tr' where r: "invoke_from e n' s1 = Inr (tr', st')" and t: "tr = n # tr'"
      by (subst (asm) invoke_from.simps) (auto split: sum.splits)
    from "1.IH"[OF p Some r] have "length tr' + node_rank n' \<le> 5" .
    with next_node_forward[OF Some] t show ?thesis by simp
  qed
qed

lemma DocumentChecker_status:
  assumes "DocumentChecker_process e st = Inr st'"
  shows "status (application st') = ''documents_rejected''
       \<or> status (application st') = ''documents_verified''"
  using assms
  by (auto simp: DocumentChecker_process_def Let_def split: if_splits sum.splits)

lemma ShortlistingAgent_status:
  assumes "ShortlistingAgent_process e st = Inr st'"
    and "status (application st) = ''documents_verified''"
  shows "status (application st') = ''rejected'' \<or> status (application st') = ''shortlisted''"
  using assms
  by (auto simp: ShortlistingAgent_process_def Let_def split: if_splits sum.splits option.splits)

lemma StudentCounselor_status:
  assumes "StudentCounselor_process e st = Inr st'"
    and "status (application st) = ''shortlisted''"
  shows "status (application st') = ''loan_requested''
       \<or> status (application st') = ''awaiting_payment''"
  using assms
  by (auto simp: StudentCounselor_process_def Let_def split: if_splits sum.splits)

lemma LoanAgent_status:
  assumes "LoanAgent_process e st = Inr st'"
    and "status (application st) = ''loan_requested''"
  shows "status (application st') = ''loan_approved'' \<or> status (application st') = ''loan_rejected''"
  using assms
  by (auto simp: LoanAgent_process_def Let_def split: if_splits sum.splits)

lemma AdmissionOfficer_status:
  assumes "AdmissionOfficer_process e st = Inr st'"
    and "status (application st) \<in> set [''awaiting_payment'', ''loan_approved'', ''loan_rejected'']"
  shows "status (application st') = ''admitted''
       \<or> status (application st') = ''awaiting_payment''"
  using assms
  by (auto simp: AdmissionOfficer_process_def ao_payment_branch_def ao_finalize_branch_def
        ao_reminder_branch_def finalize_admission_def Let_def split: sum.splits)


lemma node_step:
  assumes "entry_status n (status (application st))"
    and "node_process e n st = Inr st'"
  shows "case next_node n st' of
           None \<Rightarrow> status (application st') \<in> set final_statuses
         | Some n' \<Rightarrow> entry_status n' (status (application st'))"
proof (cases n)
  case document_checker
  with assms DocumentChecker_status[of e st st'] show ?thesis
    by (auto simp: final_statuses_def)
next
  case shortlisting_agent
  with assms ShortlistingAgent_status[of e st st'] show ?thesis
    by (auto simp: final_statuses_def)
next
  case student_counselor
  with assms StudentCounselor_status[of e st st'] show ?thesis
    by auto
next
  case loan_agent
  with assms LoanAgent_status[of e st st'] show ?thesis
    by auto
next
  case admission_officer
  with assms AdmissionOfficer_status[of e st st'] show ?thesis
    by (auto simp: final_statuses_def)
qed

lemma invoke_from_final:
  "invoke_from e n st = Inr (tr, st') \<Longrightarrow> entry_status n (status (application st))
     \<Longrightarrow> status (application st') \<in> set final_statuses"
proof (induction e n st arbitrary: tr st' rule: invoke_from.induct)
  case (1 e n st)
  from "1.prems"(1) obtain s1 where p: "node_process e n st = Inr s1"
    by (subst (asm) invoke_from.simps) (auto split: sum.splits)
  note step = node_step[OF "1.prems"(2) p]
  show ?case
  proof (cases "next_node n s1")
    case None
    with p "1.prems"(1) have "st' = s1"
      by (subst (asm) invoke_from.simps) simp
    with step None show ?thesis by simp
  next
    case (Some n')
    with p "1.prems"(1) obtain tr' where r: "invoke_from e n' s1 = Inr (tr', st')"
      by (subst (asm) invoke_from.simps) (auto split: sum.splits)
    from step Some have "entry_status n' (status (application s1))" by simp
    from "1.IH"[OF p Some r this] show ?thesis .
  qed
qed



section \<open>The workflow graph: cycles, bounds, terminal and unknown statuses\<close>

lemmas eval_defs =
  DocumentChecker_process_def check_document_completeness_def required_documents_def
  validate_transcript kb_min_gpa_def
  ShortlistingAgent_process_def check_program_availability_def get_program_capacity_def
  default_capacities_def rank_application_def get_program_def
  StudentCounselor_process_def generate_shortlist_notification_def
  handle_payment_instructions_def handle_loan_information_def
  LoanAgent_process_def get_loan_policies_def default_policies_def calculate_eligibility_def
  py_trunc_def reasons_val_def
  AdmissionOfficer_process_def ao_payment_branch_def ao_finalize_branch_def
  ao_reminder_branch_def finalize_admission_def generate_admission_letter_def
  generate_fee_slip_def fee_structure_def
  ApplicationStatus_init_def valid_statuses_def
  state_with_def docs_full_def env0_def env_poor_def str_opt_float_def Let_def

text \<open>
  Claim C1, as stated, fails: after the Loan Agent rejects the loan, the Admission
  Officer runs once, leaves the status \<^verbatim>\<open>awaiting_payment\<close>, and the run ends; the
  application is not routed to the Admission Officer again.
\<close>

theorem loan_rejected_no_loop_counterexample:
  "map_sum id (\<lambda>(tr, s). (tr, status (application s)))
     (invoke_from env_poor loan_agent (state_with ''loan_requested'' docs_full Map.empty))
   = Inr ([loan_agent, admission_officer], ''awaiting_payment'')"
  by (simp add: invoke_from.simps eval_defs)

text \<open>
  Claim C1, amended. On a state with status \<^verbatim>\<open>loan_rejected\<close> the Admission Officer
  returns; it appends the payment reminder and one history entry and sets the status
  back to \<^verbatim>\<open>awaiting_payment\<close>; the run ends with that call, the only edge out of the
  Admission Officer leading to \<^verbatim>\<open>END\<close>. The graph has no cycle: every edge leads to a
  node later in the order Document Checker, Shortlisting Agent, Student Counselor, Loan
  Agent, Admission Officer, or ends the run.
\<close>

theorem loan_rejected_reminder_then_end:
  assumes "status (application st) = ''loan_rejected''"
  shows "\<exists>st'. AdmissionOfficer_process e st = Inr st'
       \<and> status (application st') = ''awaiting_payment''
       \<and> communications (application st')
           = communications (application st) @
             [\<lparr>c_type = ''letter'', c_subject = ''Payment Reminder'',
               c_content = payment_reminder_text e (student_name (application st)),
               c_timestamp = ''2023-05-25T14:00:00Z''\<rparr>]
       \<and> history st'
           = history st @
             [[(''agent'', PyStr ''Admission Officer''), (''action'', PyStr ''payment_reminder_sent''),
               (''notes'', PyStr ''Payment reminder sent after loan rejection'')]]
       \<and> invoke_from e admission_officer st = Inr ([admission_officer], st')
       \<and> next_node admission_officer st' = None
       \<and> (\<forall>n s n'. next_node n s = Some n' \<longrightarrow> node_rank n < node_rank n')"
  using assms
  by (simp add: invoke_from_admission_officer AdmissionOfficer_loan_rejected next_node_forward
        ao_reminder_branch_def Let_def)

theorem loan_rejected_reminder_then_end_witness:
  "\<exists>st'. AdmissionOfficer_process env0 (state_with ''loan_rejected'' docs_full Map.empty) = Inr st'
     \<and> status (application st') = ''awaiting_payment''
     \<and> map c_subject (communications (application st')) = [''Payment Reminder'']
     \<and> invoke_from env0 admission_officer (state_with ''loan_rejected'' docs_full Map.empty)
         = Inr ([admission_officer], st')
     \<and> next_node loan_agent (state_with ''loan_rejected'' docs_full Map.empty)
         = Some admission_officer
     \<and> node_rank loan_agent < node_rank admission_officer"
proof -
  have s: "status (application (state_with ''loan_rejected'' docs_full Map.empty)) = ''loan_rejected''"
    and c: "communications (application (state_with ''loan_rejected'' docs_full Map.empty)) = []"
    by (simp_all add: state_with_def)
  show ?thesis
    using loan_rejected_reminder_then_end[OF s, of env0]
    unfolding c by auto
qed

text \<open>
  Claim C2, as stated, fails: a run of a complete submission whose loan is rejected
  returns after five handler calls, below the suggested cap of 20, with the status
  \<^verbatim>\<open>awaiting_payment\<close>, which is none of the terminal statuses.
\<close>

theorem run_ends_awaiting_payment_counterexample:
  "map_sum id (\<lambda>(tr, s). (tr, status (application s)))
     (process_application env_poor ad_loan)
   = Inr ([document_checker, shortlisting_agent, student_counselor, loan_agent,
           admission_officer], ''awaiting_payment'')"
  by (simp add: process_application_def initial_state_def ad_loan_def invoke_def
        invoke_from.simps eval_defs)

text \<open>
  Claim C2, amended. \<^verbatim>\<open>process_application\<close> is bounded: for every submission and
  context the call either ends with an exception or returns after at most five handler
  calls, fewer than the suggested cap of 20, with one of the statuses
  \<^verbatim>\<open>documents_rejected\<close>, \<^verbatim>\<open>rejected\<close>, \<^verbatim>\<open>admitted\<close> and \<^verbatim>\<open>awaiting_payment\<close>.
\<close>

theorem process_application_bounded:
  "(\<exists>err. process_application e ad = Inl err)
   \<or> (\<exists>tr st'. process_application e ad = Inr (tr, st')
         \<and> length tr \<le> 5 \<and> length tr < 20
         \<and> status (application st') \<in> set final_statuses)"
proof (cases "process_application e ad")
  case (Inl err)
  then show ?thesis by blast
next
  case (Inr r)
  obtain tr st' where r: "r = (tr, st')" by (cases r)
  from Inr r obtain st where i: "initial_state ad = Inr st"
    and v: "invoke_from e document_checker st = Inr (tr, st')"
    by (auto simp: process_application_def invoke_def split: sum.splits)
  from invoke_from_length[OF v] have "length tr \<le> 5 \<and> length tr < 20" by simp
  moreover from invoke_from_final[OF v] have "status (application st') \<in> set final_statuses"
    by simp
  ultimately show ?thesis using Inr r by blast
qed

theorem process_application_bounded_witness:
  "\<exists>tr st'. process_application env_poor ad_loan = Inr (tr, st')
      \<and> length tr \<le> 5 \<and> length tr < 20
      \<and> status (application st') \<in> set final_statuses"
proof -
  have "process_application env_poor ad_loan \<noteq> Inl err" for err
    by (simp add: process_application_def initial_state_def ad_loan_def invoke_def
          invoke_from.simps eval_defs)
  with process_application_bounded[of env_poor ad_loan] show ?thesis by blast
qed

text \<open>
  Claim C3, as stated, fails: \<^verbatim>\<open>process_application\<close> cannot be called again on a
  workflow state. The state dict has no key \<^verbatim>\<open>application_id\<close>, and the call on an
  admitted state raises \<^verbatim>\<open>KeyError\<close> where the claim has it return the state unchanged.
\<close>

theorem process_application_on_state_counterexample:
  "process_application env0
     (state_as_application_data (state_with ''admitted'' docs_full Map.empty)) = Inl KeyError"
  by (simp add: process_application_def initial_state_def state_as_application_data_def)

text \<open>
  Claim C3, amended. \<^verbatim>\<open>process_application\<close> takes application data and builds its own
  state with status \<^verbatim>\<open>new\<close>; called on a workflow state, whatever its status, it raises
  \<^verbatim>\<open>KeyError\<close>. What holds of the terminal statuses \<^verbatim>\<open>documents_rejected\<close>, \<^verbatim>\<open>rejected\<close>
  and \<^verbatim>\<open>admitted\<close> is that they end a run: when a handler of the workflow returns a
  state with one of them, the run returns that very state, after this handler or after
  one more call, of the Admission Officer, that leaves it unchanged.
\<close>

theorem terminal_status_ends_run:
  "process_application e (state_as_application_data st) = Inl KeyError
   \<and> (node_process e n st0 = Inr s \<and> status (application s) \<in> set terminal_statuses \<longrightarrow>
        invoke_from e n st0 = Inr ([n], s)
        \<or> (AdmissionOfficer_process e s = Inr s
            \<and> invoke_from e n st0 = Inr ([n, admission_officer], s)))"
proof (rule conjI)
  show "process_application e (state_as_application_data st) = Inl KeyError"
    by (simp add: process_application_def initial_state_def state_as_application_data_def)
next
  show "node_process e n st0 = Inr s \<and> status (application s) \<in> set terminal_statuses \<longrightarrow>
        invoke_from e n st0 = Inr ([n], s)
        \<or> (AdmissionOfficer_process e s = Inr s
            \<and> invoke_from e n st0 = Inr ([n, admission_officer], s))"
  proof (rule impI)
    assume a: "node_process e n st0 = Inr s \<and> status (application s) \<in> set terminal_statuses"
    then have p: "node_process e n st0 = Inr s"
      and t: "status (application s) \<in> set terminal_statuses" by simp_all
    from t have ao: "AdmissionOfficer_process e s = Inr s"
      by (intro AdmissionOfficer_pass_through) (auto simp: terminal_statuses_def)
    then have r: "invoke_from e admission_officer s = Inr ([admission_officer], s)"
      by (simp add: invoke_from_admission_officer)
    show "invoke_from e n st0 = Inr ([n], s)
        \<or> (AdmissionOfficer_process e s = Inr s
            \<and> invoke_from e n st0 = Inr ([n, admission_officer], s))"
    proof (cases "next_node n s")
      case None
      with p have "invoke_from e n st0 = Inr ([n], s)"
        by (subst invoke_from.simps) simp
      then show ?thesis by simp
    next
      case (Some n')
      with t have "n' = admission_officer"
        by (cases n) (auto simp: terminal_statuses_def split: if_splits)
      with Some p r have "invoke_from e n st0 = Inr ([n, admission_officer], s)"
        by (subst invoke_from.simps) simp
      with ao show ?thesis by simp
    qed
  qed
qed

theorem terminal_status_ends_run_witness:
  "\<exists>s. node_process env0 document_checker (state_with ''new'' docs_no_id Map.empty) = Inr s
      \<and> status (application s) = ''documents_rejected''
      \<and> status (application s) \<in> set terminal_statuses
      \<and> invoke_from env0 document_checker (state_with ''new'' docs_no_id Map.empty)
          = Inr ([document_checker], s)"
proof -
  obtain s where p: "node_process env0 document_checker (state_with ''new'' docs_no_id Map.empty) = Inr s"
    and r: "status (application s) = ''documents_rejected''"
    using DocumentChecker_missing[of "state_with ''new'' docs_no_id Map.empty" env0]
      docs_no_id_missing
    by (auto simp: state_with_def)
  from r have t: "status (application s) \<in> set terminal_statuses"
    by (simp add: terminal_statuses_def)
  from r have n: "next_node document_checker s = None" by simp
  have "invoke_from env0 document_checker (state_with ''new'' docs_no_id Map.empty)
          \<noteq> Inr ([document_checker, admission_officer], s)"
    using p n by (subst invoke_from.simps) simp
  with terminal_status_ends_run[of env0 s document_checker
      "state_with ''new'' docs_no_id Map.empty" s] p t
  have "invoke_from env0 document_checker (state_with ''new'' docs_no_id Map.empty)
          = Inr ([document_checker], s)" by blast
  with p r t show ?thesis by blast
qed




end
